theory Spec2Isabelle
  imports Complex_Main "HOL-Library.Word"
begin

section \<open>Gestures and the outcome of a round (src/src/App.tsx)\<close>

text \<open>
  \<^verbatim>\<open>const CLASSES = ['rock', 'paper', 'scissors'] as const;\<close>
  \<^verbatim>\<open>type Gesture = typeof CLASSES[number];\<close>
  The result of a round is the union \<^verbatim>\<open>'win' | 'lose' | 'tie'\<close>.
\<close>

datatype Gesture = Rock | Paper | Scissors

datatype Outcome = Win | Lose | Tie

definition CLASSES :: "Gesture list" where
  "CLASSES = [Rock, Paper, Scissors]"

text \<open>
  The object literal \<^verbatim>\<open>wins\<close> of \<^verbatim>\<open>determineWinner\<close>: what each gesture beats.
\<close>

fun wins :: "Gesture \<Rightarrow> Gesture" where
  "wins Rock = Scissors"
| "wins Paper = Rock"
| "wins Scissors = Paper"

text \<open>
  \<^verbatim>\<open>if (player === computer) return 'tie';\<close>
  \<^verbatim>\<open>return wins[player] === computer ? 'win' : 'lose';\<close>
\<close>

definition determineWinner :: "Gesture \<Rightarrow> Gesture \<Rightarrow> Outcome" where
  "determineWinner player computer =
     (if player = computer then Tie
      else if wins player = computer then Win else Lose)"

text \<open>
  The rule table of section 4.4 of the specification, written down row by row
  (player is the row, computer the column). It is the specification's side of the
  comparison with \<^const>\<open>determineWinner\<close>.
\<close>

fun rule_table :: "Gesture \<Rightarrow> Gesture \<Rightarrow> Outcome" where
  "rule_table Rock Rock = Tie"
| "rule_table Rock Paper = Lose"
| "rule_table Rock Scissors = Win"
| "rule_table Paper Rock = Win"
| "rule_table Paper Paper = Tie"
| "rule_table Paper Scissors = Lose"
| "rule_table Scissors Rock = Lose"
| "rule_table Scissors Paper = Win"
| "rule_table Scissors Scissors = Tie"

section \<open>Run-time values of the JavaScript\<close>

text \<open>
  An array read outside \<open>0 .. length - 1\<close> yields \<^verbatim>\<open>undefined\<close> in JavaScript; it is
  \<open>None\<close> here. The TypeScript casts (\<^verbatim>\<open>as Gesture\<close>) do not remove that value at
  run time, so a gesture that was read from \<^verbatim>\<open>CLASSES\<close> is a \<open>Gesture option\<close>.
\<close>

definition array_get :: "'a list \<Rightarrow> int \<Rightarrow> 'a option" where
  "array_get xs i = (if 0 \<le> i \<and> i < int (length xs) then Some (xs ! nat i) else None)"

text \<open>
  \<^verbatim>\<open>Math.max(...xs)\<close>: the largest element, and minus infinity (here \<open>None\<close>) for the
  empty array. Numbers are real numbers in this development: rounding and NaN of the
  IEEE doubles are not modelled.
\<close>

fun Math_max :: "real list \<Rightarrow> real option" where
  "Math_max [] = None"
| "Math_max (x # xs) = Some (fold max xs x)"

text \<open>\<^verbatim>\<open>xs.indexOf(v)\<close>: the first index holding \<open>v\<close>, and \<open>-1\<close> when there is none.\<close>

fun indexOf :: "'a list \<Rightarrow> 'a \<Rightarrow> int" where
  "indexOf [] v = -1"
| "indexOf (x # xs) v =
     (if x = v then 0 else (let i = indexOf xs v in if i < 0 then -1 else i + 1))"

text \<open>
  \<^verbatim>\<open>probabilities.indexOf(Math.max(...probabilities))\<close>; minus infinity is no element
  of an array of reals.
\<close>

definition argmax_index :: "real list \<Rightarrow> int" where
  "argmax_index probabilities =
     (case Math_max probabilities of None \<Rightarrow> -1 | Some m \<Rightarrow> indexOf probabilities m)"

text \<open>
  \<^const>\<open>determineWinner\<close> as it runs when an argument is \<^verbatim>\<open>undefined\<close>:
  \<^verbatim>\<open>undefined === undefined\<close> holds, \<^verbatim>\<open>wins[undefined]\<close> is \<^verbatim>\<open>undefined\<close>, and no
  gesture is \<^verbatim>\<open>=== undefined\<close>.
\<close>

definition determineWinner_rt :: "Gesture option \<Rightarrow> Gesture option \<Rightarrow> Outcome" where
  "determineWinner_rt player computer =
     (case (player, computer) of
        (Some p, Some c) \<Rightarrow> determineWinner p c
      | (None, None) \<Rightarrow> Tie
      | _ \<Rightarrow> Lose)"

section \<open>Tensors and preprocessing\<close>

type_synonym byte = "8 word"

datatype error =
    IndexSizeError \<comment> \<open>\<^verbatim>\<open>getImageData\<close> on a rectangle without pixels\<close>
  | ShapeMismatch \<comment> \<open>\<^verbatim>\<open>tf.tensor3d\<close>: the values do not fill the shape\<close>
  | InferenceFailure \<comment> \<open>\<^verbatim>\<open>model.predict\<close> threw\<close>
  | HandDetectorFailure \<comment> \<open>\<^verbatim>\<open>hands.send\<close> rejected\<close>
  | ImageLoadFailure \<comment> \<open>\<^verbatim>\<open>fs.readFileSync\<close> or \<^verbatim>\<open>sharp\<close> threw\<close>

record tensor =
  tshape :: "nat list"
  tvalues :: "real list"

record ImageData =
  img_width :: nat
  img_height :: nat
  img_data :: "byte list"

text \<open>
  \<^verbatim>\<open>tf.tensor3d(new Uint8Array(buf), shape, 'float32')\<close>: the library throws unless the
  shape has three numbers and the buffer has exactly as many values as the shape asks for.
\<close>

definition tensor3d :: "byte list \<Rightarrow> nat list \<Rightarrow> error + tensor" where
  "tensor3d vals shp =
     (if length shp = 3 \<and> length vals = prod_list shp
      then Inr \<lparr>tshape = shp, tvalues = map (\<lambda>b. real (unat b)) vals\<rparr>
      else Inl ShapeMismatch)"

text \<open>\<^verbatim>\<open>.div(255.0)\<close> and \<^verbatim>\<open>.expandDims(0)\<close>.\<close>

definition div_scalar :: "tensor \<Rightarrow> real \<Rightarrow> tensor" where
  "div_scalar t d = t\<lparr>tvalues := map (\<lambda>v. v / d) (tvalues t)\<rparr>"

definition expandDims0 :: "tensor \<Rightarrow> tensor" where
  "expandDims0 t = t\<lparr>tshape := 1 # tshape t\<rparr>"

text \<open>
  A typed-array read: a byte, and 0 where the library stores the \<^verbatim>\<open>undefined\<close> of an
  out-of-range read into its integer array.
\<close>

definition byte_at :: "byte list \<Rightarrow> nat \<Rightarrow> byte" where
  "byte_at bs i = (if i < length bs then bs ! i else 0)"

text \<open>
  \<^verbatim>\<open>tf.browser.fromPixels(imageData).toFloat()\<close> with the default of three channels:
  entry \<open>3 * p + c\<close> of the result is byte \<open>4 * p + c\<close> of the RGBA data (the alpha
  byte of every pixel is dropped), and the shape is height, width, 3.
\<close>

definition fromPixels :: "ImageData \<Rightarrow> tensor" where
  "fromPixels img =
     \<lparr>tshape = [img_height img, img_width img, 3],
      tvalues = map (\<lambda>k. real (unat (byte_at (img_data img) (4 * (k div 3) + k mod 3))))
                  [0 ..< img_height img * img_width img * 3]\<rparr>"

text \<open>
  Conversion of a JavaScript number to the whole number of pixels a canvas method takes:
  the fraction is cut off (towards zero).
\<close>

definition js_trunc :: "real \<Rightarrow> int" where
  "js_trunc v = (if 0 \<le> v then \<lfloor>v\<rfloor> else \<lceil>v\<rceil>)"

text \<open>
  Modelled from the spec: \<^verbatim>\<open>ctx.getImageData(sx, sy, sw, sh)\<close> is a method of the
  browser's canvas and not part of the repository. After section 4.1 of the
  specification, a region of zero width or zero height is an error (InvalidRegion there,
  the canvas's IndexSizeError here) and no image data is returned. Width and height
  count whole pixels, as the canvas takes them. Otherwise the image data has the size of
  the rectangle, and its bytes are those the canvas holds, given by the parameter
  \<open>pixels\<close>.
\<close>

definition getImageData ::
  "(int \<Rightarrow> int \<Rightarrow> int \<Rightarrow> int \<Rightarrow> byte list) \<Rightarrow> real \<Rightarrow> real \<Rightarrow> real \<Rightarrow> real \<Rightarrow> error + ImageData" where
  "getImageData pixels sx sy sw sh =
     (let w = js_trunc sw; h = js_trunc sh
      in if w = 0 \<or> h = 0 then Inl IndexSizeError
         else Inr \<lparr>img_width = nat \<bar>w\<bar>, img_height = nat \<bar>h\<bar>,
                   img_data = pixels (js_trunc sx) (js_trunc sy) w h\<rparr>)"

text \<open>
  \<^verbatim>\<open>tempCtx.drawImage(tempCanvas2, 0, 0, w, h)\<close> followed by
  \<^verbatim>\<open>tempCtx.getImageData(0, 0, w, h)\<close> on a canvas of \<open>w\<close> by \<open>h\<close> pixels: the
  image data has \<open>w * h * 4\<close> bytes. Their values are the browser's interpolation of
  the source image, the parameter \<open>scaler\<close> (source, target width, target height, byte
  index).
\<close>

definition drawImage_resized ::
  "(ImageData \<Rightarrow> nat \<Rightarrow> nat \<Rightarrow> nat \<Rightarrow> byte) \<Rightarrow> ImageData \<Rightarrow> nat \<Rightarrow> nat \<Rightarrow> ImageData" where
  "drawImage_resized scaler src w h =
     \<lparr>img_width = w, img_height = h, img_data = map (scaler src w h) [0 ..< w * h * 4]\<rparr>"

section \<open>Prediction in the browser: predictGesture (src/src/App.tsx)\<close>

record PredictionResult =
  gesture :: "Gesture option"
  confidence :: "real option"

record Video =
  videoWidth :: nat
  videoHeight :: nat
  frame :: "int \<Rightarrow> int \<Rightarrow> int \<Rightarrow> int \<Rightarrow> byte list"

record Canvas =
  has_context2d :: bool

record BoundingBox =
  box_x :: real
  box_y :: real
  box_width :: real
  box_height :: real

text \<open>
  What \<^verbatim>\<open>predictGesture\<close> closes over and what the browser gives it:
  \<^item> \<open>model\<close>: the classifier (\<^verbatim>\<open>model.predict(tensor).dataSync()\<close>, which can throw), or
    \<open>None\<close> while the state \<^verbatim>\<open>model\<close> is \<^verbatim>\<open>null\<close>;
  \<^item> \<open>videoRef\<close>, \<open>canvasRef\<close>: the \<^verbatim>\<open>current\<close> of the two refs; \<open>has_context2d\<close> says
    whether \<^verbatim>\<open>canvas.getContext('2d')\<close> is non-null; \<open>frame\<close> is the content of the
    canvas after the video frame was drawn on it;
  \<^item> \<open>hands\<close>: \<open>None\<close> without a detector, \<open>Some None\<close> when \<^verbatim>\<open>hands.send\<close> resolves,
    \<open>Some (Some e)\<close> when it rejects;
  \<^item> \<open>detected\<close>: \<^verbatim>\<open>results.multiHandLandmarks\<close>, which the detector hands to the
    \<^verbatim>\<open>onResults\<close> callback for the frame of this call: one list of landmarks (x, y) for
    each hand found, none when no hand is found;
  \<^item> \<open>handDetected\<close>, \<open>handBoundingBox\<close>: the state of the render the callback belongs to
    (the dependencies of \<^verbatim>\<open>useCallback\<close>), written by \<^verbatim>\<open>onResults\<close> for an earlier frame;
  \<^item> \<open>scaler\<close>: the interpolation of \<^verbatim>\<open>drawImage\<close>.
  The two temporary canvases always have a 2D context (the source asserts it with
  \<^verbatim>\<open>!\<close>).
\<close>

record Env =
  model :: "(tensor \<Rightarrow> error + real list) option"
  videoRef :: "Video option"
  canvasRef :: "Canvas option"
  hands :: "error option option"
  detected :: "(real \<times> real) list list"
  handDetected :: bool
  handBoundingBox :: "BoundingBox option"
  scaler :: "ImageData \<Rightarrow> nat \<Rightarrow> nat \<Rightarrow> nat \<Rightarrow> byte"

text \<open>
  The callback given to \<^verbatim>\<open>handsInstance.onResults\<close>: for the first hand found, the
  bounding box of its landmarks with a padding of a tenth of its size on each side, cut
  to the frame; \<^verbatim>\<open>setHandDetected\<close> and \<^verbatim>\<open>setHandBoundingBox\<close> receive the pair returned
  here. The state they set is seen by the callbacks of the next render.
\<close>

definition handBox :: "(real \<times> real) list \<Rightarrow> BoundingBox" where
  "handBox landmarks =
     (let minX = fold (\<lambda>landmark m. min m (fst landmark)) landmarks 1;
          minY = fold (\<lambda>landmark m. min m (snd landmark)) landmarks 1;
          maxX = fold (\<lambda>landmark m. max m (fst landmark)) landmarks 0;
          maxY = fold (\<lambda>landmark m. max m (snd landmark)) landmarks 0;
          padding = 0.1;
          width = maxX - minX;
          height = maxY - minY
      in \<lparr>box_x = max 0 (minX - padding * width),
           box_y = max 0 (minY - padding * height),
           box_width = min 1 (width + 2 * padding * width),
           box_height = min 1 (height + 2 * padding * height)\<rparr>)"

definition onResults :: "(real \<times> real) list list \<Rightarrow> bool \<times> BoundingBox option" where
  "onResults multiHandLandmarks =
     (case multiHandLandmarks of
        [] \<Rightarrow> (False, None)
      | landmarks # _ \<Rightarrow> (True, Some (handBox landmarks)))"

text \<open>
  What a callback created by the next render closes over, after \<^verbatim>\<open>hands.send\<close> has
  resolved and \<^verbatim>\<open>onResults\<close> has run for this frame.
\<close>

definition rerendered :: "Env \<Rightarrow> Env" where
  "rerendered env =
     (case hands env of
        Some None \<Rightarrow>
          env\<lparr>handDetected := fst (onResults (detected env)),
               handBoundingBox := snd (onResults (detected env))\<rparr>
      | _ \<Rightarrow> env)"

text \<open>
  STEP 3, the rectangle handed to \<^verbatim>\<open>ctx.getImageData\<close> as (x, y, width, height): the
  bounding box of the hand scaled to the frame, or the centre region.
\<close>

definition handRegion :: "BoundingBox \<Rightarrow> nat \<Rightarrow> nat \<Rightarrow> real \<times> real \<times> real \<times> real" where
  "handRegion box vw vh =
     (box_x box * real vw, box_y box * real vh, box_width box * real vw, box_height box * real vh)"

definition centerRegion :: "nat \<Rightarrow> nat \<Rightarrow> real \<times> real \<times> real \<times> real" where
  "centerRegion vw vh =
     (let centerSize = real (min vw vh) * 0.6;
          centerX = (real vw - centerSize) / 2;
          centerY = (real vh - centerSize) / 2
      in (centerX, centerY, centerSize, centerSize))"

definition cropRegion :: "Env \<Rightarrow> nat \<Rightarrow> nat \<Rightarrow> real \<times> real \<times> real \<times> real" where
  "cropRegion env vw vh =
     (case handBoundingBox env of
        Some box \<Rightarrow> if handDetected env then handRegion box vw vh else centerRegion vw vh
      | None \<Rightarrow> centerRegion vw vh)"

definition extractRegion :: "Env \<Rightarrow> Video \<Rightarrow> error + ImageData" where
  "extractRegion env video =
     (case cropRegion env (videoWidth video) (videoHeight video) of
        (sx, sy, sw, sh) \<Rightarrow> getImageData (frame video) sx sy sw sh)"

text \<open>STEP 4 and STEP 5: resize to 16 by 16, then the tensor of shape 1, 16, 16, 3.\<close>

definition gestureTensor :: "(ImageData \<Rightarrow> nat \<Rightarrow> nat \<Rightarrow> nat \<Rightarrow> byte) \<Rightarrow> ImageData \<Rightarrow> tensor" where
  "gestureTensor sc processedImageData =
     (let finalImageData = drawImage_resized sc processedImageData 16 16
      in expandDims0 (div_scalar (fromPixels finalImageData) 255))"

text \<open>STEP 7: the gesture with the highest score and its score.\<close>

definition pickGesture :: "real list \<Rightarrow> PredictionResult" where
  "pickGesture probabilities =
     (let maxIndex = argmax_index probabilities
      in \<lparr>gesture = array_get CLASSES maxIndex, confidence = array_get probabilities maxIndex\<rparr>)"

text \<open>
  \<^verbatim>\<open>predictGesture\<close>: \<open>Inr None\<close> is the returned \<^verbatim>\<open>null\<close>, \<open>Inl e\<close> a rejected
  promise (an exception), \<open>Inr (Some r)\<close> the returned result. The call awaits
  \<^verbatim>\<open>hands.send\<close> and then reads \<^verbatim>\<open>handDetected\<close> and \<^verbatim>\<open>handBoundingBox\<close> of its closure;
  what the detector reported for this frame (\<open>detected\<close>) is not read.
\<close>

definition predictGesture :: "Env \<Rightarrow> error + PredictionResult option" where
  "predictGesture env =
     (case model env of None \<Rightarrow> Inr None | Some clf \<Rightarrow>
      case videoRef env of None \<Rightarrow> Inr None | Some video \<Rightarrow>
      case canvasRef env of None \<Rightarrow> Inr None | Some canvas \<Rightarrow>
      if \<not> has_context2d canvas then Inr None
      else case hands env of Some (Some e) \<Rightarrow> Inl e | _ \<Rightarrow>
        (case extractRegion env video of Inl e \<Rightarrow> Inl e
         | Inr processedImageData \<Rightarrow>
           (case clf (gestureTensor (scaler env) processedImageData) of Inl e \<Rightarrow> Inl e
            | Inr probabilities \<Rightarrow> Inr (Some (pickGesture probabilities)))))"

section \<open>Prediction and training in Node (src/rps-model/src)\<close>

text \<open>
  In both scripts \<open>load img w h\<close> stands for
  \<^verbatim>\<open>sharp(fs.readFileSync(path)).resize(w, h).raw().toBuffer()\<close>: the raw bytes of the
  resized image, three per pixel for an RGB image and four with an alpha channel, or an
  exception.
\<close>

record PredictOutput =
  predictedClass :: "Gesture option"
  probabilities :: "real list"

text \<open>predict.ts, lines 59 to 64: the tensor given to the model.\<close>

definition predict_tensor :: "('img \<Rightarrow> nat \<Rightarrow> nat \<Rightarrow> error + byte list) \<Rightarrow> 'img \<Rightarrow> error + tensor" where
  "predict_tensor load img =
     (case load img 16 16 of Inl e \<Rightarrow> Inl e
      | Inr resizedBuffer \<Rightarrow>
        (case tensor3d resizedBuffer [16, 16, 3] of Inl e \<Rightarrow> Inl e
         | Inr t \<Rightarrow> Inr (expandDims0 (div_scalar t 255))))"


text \<open>
  train.ts, \<^verbatim>\<open>loadImages\<close>, lines 25 and 26: the tensor of one training image, and the
  \<^verbatim>\<open>inputShape\<close> the three \<^verbatim>\<open>createModel\<close> give their first layer.
\<close>

definition loadImages_tensor :: "('img \<Rightarrow> nat \<Rightarrow> nat \<Rightarrow> error + byte list) \<Rightarrow> 'img \<Rightarrow> error + tensor" where
  "loadImages_tensor load img =
     (case load img 64 64 of Inl e \<Rightarrow> Inl e
      | Inr resizedBuffer \<Rightarrow>
        (case tensor3d resizedBuffer [64, 64, 3] of Inl e \<Rightarrow> Inl e
         | Inr imgTensor \<Rightarrow> Inr (div_scalar imgTensor 255)))"

definition train_inputShape :: "nat list" where
  "train_inputShape = [64, 64, 3]"

definition predict_inputShape :: "nat list" where
  "predict_inputShape = [16, 16, 3]"

definition app_inputShape :: "nat list" where
  "app_inputShape = [16, 16, 3]"

section \<open>The round: playRound (src/src/App.tsx)\<close>

record Score =
  player :: int
  computer :: int
  ties :: int

record AppState =
  isCameraActive :: bool
  isPlaying :: bool
  currentPrediction :: "PredictionResult option"
  computerChoice :: "Gesture option"
  gameResult :: "Outcome option"
  score :: Score

text \<open>\<^verbatim>\<open>useState({ player: 0, computer: 0, ties: 0 })\<close> and the other initial values.\<close>

definition initialState :: AppState where
  "initialState =
     \<lparr>isCameraActive = False, isPlaying = False, currentPrediction = None,
      computerChoice = None, gameResult = None,
      score = \<lparr>player = 0, computer = 0, ties = 0\<rparr>\<rparr>"

text \<open>
  The updater given to \<^verbatim>\<open>setScore\<close>: a copy of \<^verbatim>\<open>prev\<close> with the field chosen by
  \<^verbatim>\<open>result === 'win' ? 'player' : result === 'lose' ? 'computer' : 'ties'\<close> one higher.
\<close>

definition updateScore :: "Outcome \<Rightarrow> Score \<Rightarrow> Score" where
  "updateScore result prev =
     (if result = Win then prev\<lparr>player := player prev + 1\<rparr>
      else if result = Lose then prev\<lparr>computer := computer prev + 1\<rparr>
      else prev\<lparr>ties := ties prev + 1\<rparr>)"

text \<open>
  A callback reads the state through its closure: \<^verbatim>\<open>playRound\<close> is made by
  \<^verbatim>\<open>useCallback\<close> with \<^verbatim>\<open>isCameraActive\<close> and \<^verbatim>\<open>isPlaying\<close> among its dependencies, so it
  sees the values of the render that created it, here the state \<open>c\<close>. The setters act on
  the state of the component, here \<open>s\<close>; what they set is seen by the callbacks of the
  next render only.

  \<^verbatim>\<open>playRound\<close> up to its \<^verbatim>\<open>await\<close>: \<open>None\<close> is the early \<^verbatim>\<open>return\<close> of the guard,
  otherwise the state after \<^verbatim>\<open>setIsPlaying(true)\<close> and \<^verbatim>\<open>setGameResult(null)\<close>.
\<close>

definition playRound_begin :: "AppState \<Rightarrow> AppState \<Rightarrow> AppState option" where
  "playRound_begin c s =
     (if \<not> isCameraActive c \<or> isPlaying c then None
      else Some (s\<lparr>isPlaying := True, gameResult := None\<rparr>))"

text \<open>
  \<^verbatim>\<open>playRound\<close> from the moment \<^verbatim>\<open>await predictGesture()\<close> settles with \<open>awaited\<close>;
  \<open>rnd\<close> is the value of \<^verbatim>\<open>Math.random()\<close>. An exception goes through \<^verbatim>\<open>catch\<close>
  (which logs) and \<^verbatim>\<open>finally\<close>; a \<^verbatim>\<open>null\<close> result through the early \<^verbatim>\<open>return\<close>
  and \<^verbatim>\<open>finally\<close>.
\<close>

definition playRound_settle :: "error + PredictionResult option \<Rightarrow> real \<Rightarrow> AppState \<Rightarrow> AppState" where
  "playRound_settle awaited rnd s =
     (case awaited of
        Inl e \<Rightarrow> s\<lparr>isPlaying := False\<rparr>
      | Inr None \<Rightarrow> s\<lparr>isPlaying := False\<rparr>
      | Inr (Some playerResult) \<Rightarrow>
          (let computerGesture = array_get CLASSES \<lfloor>rnd * real (length CLASSES)\<rfloor>;
               result = determineWinner_rt (gesture playerResult) computerGesture
           in s\<lparr>currentPrediction := Some playerResult,
                 computerChoice := computerGesture,
                 gameResult := Some result,
                 score := updateScore result (score s),
                 isPlaying := False\<rparr>))"

text \<open>One call of \<^verbatim>\<open>playRound\<close> from its guard to its end, with nothing in between.\<close>

definition playRound :: "AppState \<Rightarrow> Env \<Rightarrow> real \<Rightarrow> AppState \<Rightarrow> AppState" where
  "playRound c env rnd s =
     (case playRound_begin c s of
        None \<Rightarrow> s
      | Some s' \<Rightarrow> playRound_settle (predictGesture env) rnd s')"

text \<open>
  The callback of the auto-play interval: the effect installs it only if the
  \<^verbatim>\<open>isCameraActive\<close> of its render is set, and it tests the \<^verbatim>\<open>isPlaying\<close> of that render:
  \<^verbatim>\<open>if (!isPlaying) { playRound(); }\<close>. \<open>None\<close>: nothing started.
\<close>

definition autoPlay_tick :: "AppState \<Rightarrow> AppState \<Rightarrow> AppState option" where
  "autoPlay_tick c s =
     (if \<not> isCameraActive c then None
      else if \<not> isPlaying c then playRound_begin c s else None)"

section \<open>A session as a sequence of events\<close>

text \<open>
  A round is in flight between the moment \<^verbatim>\<open>playRound\<close> passes its guard and the moment
  its \<^verbatim>\<open>await\<close> settles. A session holds the state of the component (\<open>app\<close>), the state
  that the callbacks of the latest render have closed over (\<open>rendered\<close>), the number of
  rounds in flight and the number of rounds started. The events are the camera switching
  on and off, a render (React creates the callbacks anew from the current state), a
  round-start trigger (a tick of the interval or a direct call of \<^verbatim>\<open>playRound\<close>), and the
  settling of the prediction of a round in flight.
\<close>

datatype trigger = Timer | Manual

datatype event =
    CameraOn
  | CameraOff
  | Render
  | Trigger trigger
  | Settle "error + PredictionResult option" real

fun fire :: "trigger \<Rightarrow> AppState \<Rightarrow> AppState \<Rightarrow> AppState option" where
  "fire Timer c s = autoPlay_tick c s"
| "fire Manual c s = playRound_begin c s"

record Session =
  app :: AppState
  rendered :: AppState
  in_flight :: nat
  started :: nat

definition initialSession :: Session where
  "initialSession = \<lparr>app = initialState, rendered = initialState, in_flight = 0, started = 0\<rparr>"

definition begin_round :: "AppState option \<Rightarrow> Session \<Rightarrow> Session" where
  "begin_round r \<sigma> =
     (case r of
        None \<Rightarrow> \<sigma>
      | Some s' \<Rightarrow> \<sigma>\<lparr>app := s', in_flight := in_flight \<sigma> + 1, started := started \<sigma> + 1\<rparr>)"

fun step :: "event \<Rightarrow> Session \<Rightarrow> Session" where
  "step CameraOn \<sigma> = \<sigma>\<lparr>app := (app \<sigma>)\<lparr>isCameraActive := True\<rparr>\<rparr>"
| "step CameraOff \<sigma> = \<sigma>\<lparr>app := (app \<sigma>)\<lparr>isCameraActive := False\<rparr>\<rparr>"
| "step Render \<sigma> = \<sigma>\<lparr>rendered := app \<sigma>\<rparr>"
| "step (Trigger t) \<sigma> = begin_round (fire t (rendered \<sigma>) (app \<sigma>)) \<sigma>"
| "step (Settle awaited rnd) \<sigma> =
     (if in_flight \<sigma> = 0 then \<sigma>
      else \<sigma>\<lparr>app := playRound_settle awaited rnd (app \<sigma>), in_flight := in_flight \<sigma> - 1\<rparr>)"

fun run :: "event list \<Rightarrow> Session \<Rightarrow> Session" where
  "run [] \<sigma> = \<sigma>"
| "run (e # es) \<sigma> = run es (step e \<sigma>)"

text \<open>
  A Resolved transition (Classifying to Resolved in section 4.3 of the specification):
  the prediction of a round in flight settles with a result. It is read off the event
  and the number of rounds in flight, not off the score.
\<close>

fun succeeded :: "error + PredictionResult option \<Rightarrow> bool" where
  "succeeded (Inr (Some r)) = True"
| "succeeded (Inr None) = False"
| "succeeded (Inl e) = False"

fun resolved_step :: "event \<Rightarrow> Session \<Rightarrow> bool" where
  "resolved_step (Settle awaited rnd) \<sigma> = (0 < in_flight \<sigma> \<and> succeeded awaited)"
| "resolved_step CameraOn \<sigma> = False"
| "resolved_step CameraOff \<sigma> = False"
| "resolved_step Render \<sigma> = False"
| "resolved_step (Trigger t) \<sigma> = False"

fun resolved_transitions :: "event list \<Rightarrow> Session \<Rightarrow> nat" where
  "resolved_transitions [] \<sigma> = 0"
| "resolved_transitions (e # es) \<sigma> =
     (if resolved_step e \<sigma> then 1 else 0) + resolved_transitions es (step e \<sigma>)"

definition total :: "Score \<Rightarrow> int" where
  "total sc = player sc + computer sc + ties sc"

section \<open>Example inputs\<close>

text \<open>
  A camera frame of 320 by 240 pixels (the size \<^verbatim>\<open>startCamera\<close> asks for), all black, no
  hand in it, and a classifier that answers with the scores 0.1, 0.7 and 0.2.
\<close>

definition example_video :: Video where
  "example_video =
     \<lparr>videoWidth = 320, videoHeight = 240,
      frame = (\<lambda>x y w h. replicate (nat (\<bar>w\<bar> * \<bar>h\<bar>) * 4) 0)\<rparr>"

definition example_env :: Env where
  "example_env =
     \<lparr>model = Some (\<lambda>t. Inr [1 / 10, 7 / 10, 1 / 5]),
      videoRef = Some example_video,
      canvasRef = Some \<lparr>has_context2d = True\<rparr>,
      hands = Some None,
      detected = [],
      handDetected = False,
      handBoundingBox = None,
      scaler = (\<lambda>src w h i. 0)\<rparr>"

definition example_state :: AppState where
  "example_state = initialState\<lparr>isCameraActive := True\<rparr>"

text \<open>An image loader that yields a black RGB image of the size asked for.\<close>

definition example_load :: "unit \<Rightarrow> nat \<Rightarrow> nat \<Rightarrow> error + byte list" where
  "example_load img w h = Inr (replicate (w * h * 3) 0)"

text \<open>
  The example environment with a detected hand whose bounding box has no width (all
  landmarks share one x coordinate).
\<close>

definition degenerate_env :: Env where
  "degenerate_env =
     example_env\<lparr>handDetected := True,
                 handBoundingBox := Some \<lparr>box_x = 1 / 2, box_y = 1 / 2, box_width = 0, box_height = 1 / 4\<rparr>\<rparr>"

text \<open>
  Two rounds in a row. In the first the detector finds a hand between (0.25, 0.25) and
  (0.75, 0.75); the component renders; in the second the hand has left the frame and the
  detector finds none. \<open>second_round_env\<close> is what \<^verbatim>\<open>predictGesture\<close> closes over and is
  given in the second round.
\<close>

definition first_round_env :: Env where
  "first_round_env = example_env\<lparr>detected := [[(1 / 4, 1 / 4), (3 / 4, 3 / 4)]]\<rparr>"

definition second_round_env :: Env where
  "second_round_env = (rerendered first_round_env)\<lparr>detected := []\<rparr>"

text \<open>
  A prediction of paper, and a session in which the camera is switched on, the component
  renders, and one round is played to its end with the random number 0 (the computer
  plays rock) before the next render.
\<close>

definition paper :: PredictionResult where
  "paper = \<lparr>gesture = Some Paper, confidence = Some (7 / 10)\<rparr>"


text \<open>
  The same start, but the callback of one render is called twice before the next render,
  and both predictions settle.
\<close>

definition two_calls :: "trigger \<Rightarrow> event list" where
  "two_calls t =
     [CameraOn, Render, Trigger t, Trigger t,
      Settle (Inr (Some paper)) 0, Settle (Inr (Some paper)) 0]"

section \<open>Properties\<close>

subsection \<open>Outcome Resolver\<close>

lemma determineWinner_table: "determineWinner p c = rule_table p c"
  by (cases p; cases c) (simp_all add: determineWinner_def)

text \<open>
  Claim C1. For every pair of gestures, \<^const>\<open>determineWinner\<close> returns a tie exactly
  when the two gestures are equal, a win exactly on (rock, scissors), (paper, rock) and
  (scissors, paper), a loss in every other case, and agrees with the rule table of the
  specification.
\<close>

theorem C1_determineWinner_correct:
  "(determineWinner p c = Tie) = (p = c)
   \<and> (determineWinner p c = Win) = ((p, c) \<in> {(Rock, Scissors), (Paper, Rock), (Scissors, Paper)})
   \<and> (determineWinner p c = Lose) = (p \<noteq> c \<and> (p, c) \<notin> {(Rock, Scissors), (Paper, Rock), (Scissors, Paper)})
   \<and> determineWinner p c = rule_table p c"
  by (cases p; cases c) (simp_all add: determineWinner_def)

subsection \<open>Score\<close>

lemma fire_Some:
  "fire t c s = Some s' \<Longrightarrow>
     isCameraActive c \<and> \<not> isPlaying c \<and> s' = s\<lparr>isPlaying := True, gameResult := None\<rparr>"
  by (cases t) (auto simp: autoPlay_tick_def playRound_begin_def split: if_splits)

lemma fire_None: "fire t c s = None \<Longrightarrow> \<not> isCameraActive c \<or> isPlaying c"
  by (cases t) (auto simp: autoPlay_tick_def playRound_begin_def split: if_splits)

lemma isPlaying_settle: "\<not> isPlaying (playRound_settle awaited rnd s)"
  by (simp add: playRound_settle_def Let_def split: sum.split option.split)

lemma updateScore_cases:
  "updateScore result sc =
     (case result of
        Win \<Rightarrow> sc\<lparr>player := player sc + 1\<rparr>
      | Lose \<Rightarrow> sc\<lparr>computer := computer sc + 1\<rparr>
      | Tie \<Rightarrow> sc\<lparr>ties := ties sc + 1\<rparr>)"
  by (cases result) (simp_all add: updateScore_def)

lemma total_updateScore: "total (updateScore result sc) = total sc + 1"
  by (cases result) (simp_all add: updateScore_def total_def)

lemma updateScore_mono:
  "player sc \<le> player (updateScore result sc) \<and> computer sc \<le> computer (updateScore result sc)
   \<and> ties sc \<le> ties (updateScore result sc)"
  by (cases result) (simp_all add: updateScore_def)

lemma one_field_raised:
  assumes "gameResult s' = Some result" and "score s' = updateScore result sc"
  shows "gameResult s' = Some Win \<and> score s' = sc\<lparr>player := player sc + 1\<rparr>
       \<or> gameResult s' = Some Lose \<and> score s' = sc\<lparr>computer := computer sc + 1\<rparr>
       \<or> gameResult s' = Some Tie \<and> score s' = sc\<lparr>ties := ties sc + 1\<rparr>"
  using assms by (cases result) (simp_all add: updateScore_def)

lemma settle_outcome:
  "\<exists>result. gameResult (playRound_settle (Inr (Some r)) rnd s) = Some result
      \<and> score (playRound_settle (Inr (Some r)) rnd s) = updateScore result (score s)"
  by (simp add: playRound_settle_def Let_def)

lemma step_resolved:
  assumes "resolved_step e \<sigma>"
  shows "\<exists>result. gameResult (app (step e \<sigma>)) = Some result
      \<and> score (app (step e \<sigma>)) = updateScore result (score (app \<sigma>))"
proof (cases e)
  case (Settle awaited rnd)
  with assms have f: "in_flight \<sigma> \<noteq> 0" and "succeeded awaited" by simp_all
  then obtain r where "awaited = Inr (Some r)" by (cases awaited rule: succeeded.cases) simp_all
  then show ?thesis using Settle f settle_outcome [of r rnd "app \<sigma>"] by simp
qed (use assms in simp_all)

lemma step_unresolved:
  assumes "\<not> resolved_step e \<sigma>"
  shows "score (app (step e \<sigma>)) = score (app \<sigma>)"
proof (cases e)
  case (Trigger t)
  then show ?thesis
    by (cases "fire t (rendered \<sigma>) (app \<sigma>)") (auto simp: begin_round_def dest!: fire_Some)
next
  case (Settle awaited rnd)
  show ?thesis
  proof (cases "in_flight \<sigma> = 0")
    case True
    then show ?thesis using Settle by simp
  next
    case False
    with assms Settle have "\<not> succeeded awaited" by simp
    then have "playRound_settle awaited rnd (app \<sigma>) = (app \<sigma>)\<lparr>isPlaying := False\<rparr>"
      by (cases awaited rule: succeeded.cases) (simp_all add: playRound_settle_def)
    then show ?thesis using Settle False by simp
  qed
qed simp_all

lemma step_total:
  "total (score (app (step e \<sigma>))) = total (score (app \<sigma>)) + (if resolved_step e \<sigma> then 1 else 0)"
proof (cases "resolved_step e \<sigma>")
  case True
  from step_resolved [OF True] show ?thesis using True by (auto simp: total_updateScore)
next
  case False
  from step_unresolved [OF False] show ?thesis using False by simp
qed

lemma step_mono:
  "player (score (app \<sigma>)) \<le> player (score (app (step e \<sigma>)))
   \<and> computer (score (app \<sigma>)) \<le> computer (score (app (step e \<sigma>)))
   \<and> ties (score (app \<sigma>)) \<le> ties (score (app (step e \<sigma>)))"
proof (cases "resolved_step e \<sigma>")
  case True
  from step_resolved [OF True] obtain result
    where "score (app (step e \<sigma>)) = updateScore result (score (app \<sigma>))" by blast
  then show ?thesis using updateScore_mono [of "score (app \<sigma>)" result] by simp
next
  case False
  from step_unresolved [OF False] show ?thesis by simp
qed

lemma run_mono:
  "player (score (app \<sigma>)) \<le> player (score (app (run es \<sigma>)))
   \<and> computer (score (app \<sigma>)) \<le> computer (score (app (run es \<sigma>)))
   \<and> ties (score (app \<sigma>)) \<le> ties (score (app (run es \<sigma>)))"
proof (induction es arbitrary: \<sigma>)
  case Nil
  show ?case by simp
next
  case (Cons e es)
  show ?case using step_mono [of \<sigma> e] Cons [of "step e \<sigma>"] by simp
qed

lemma run_total:
  "total (score (app (run es \<sigma>))) = total (score (app \<sigma>)) + int (resolved_transitions es \<sigma>)"
proof (induction es arbitrary: \<sigma>)
  case Nil
  show ?case by simp
next
  case (Cons e es)
  from Cons [of "step e \<sigma>"] step_total [of e \<sigma>] show ?case by simp
qed

lemma two_calls_run:
  "run (two_calls t) initialSession =
     \<lparr>app = \<lparr>isCameraActive = True, isPlaying = False, currentPrediction = Some paper,
             computerChoice = Some Rock, gameResult = Some Win,
             score = \<lparr>player = 2, computer = 0, ties = 0\<rparr>\<rparr>,
      rendered = initialState\<lparr>isCameraActive := True\<rparr>, in_flight = 0, started = 2\<rparr>"
  by (cases t)
     (simp_all add: two_calls_def initialSession_def initialState_def autoPlay_tick_def
        playRound_begin_def begin_round_def playRound_settle_def paper_def array_get_def
        CLASSES_def determineWinner_rt_def determineWinner_def updateScore_def Let_def)

lemma two_calls_resolved: "resolved_transitions (two_calls t) initialSession = 2"
  by (cases t)
     (simp_all add: two_calls_def initialSession_def initialState_def autoPlay_tick_def
        playRound_begin_def begin_round_def)

text \<open>
  Claim C2. A prediction that settles with a result reports an outcome and raises exactly
  one field of the score by one, the player's on a win, the computer's on a loss, the
  ties on a tie, and leaves the other two as they were. In every session that starts
  from the initial state this is what a Resolved transition does to the score, and every
  other step leaves the score as it is. Hence the three fields are never negative, they
  never decrease along the session, and their sum is the number of Resolved transitions
  so far.
\<close>

theorem C2_score_one_increment_per_round:
  fixes es es' :: "event list" and e :: event
    and r :: PredictionResult and rnd :: real and s :: AppState
  defines "\<sigma> \<equiv> run es initialSession"
  defines "s' \<equiv> playRound_settle (Inr (Some r)) rnd s"
  shows
  "(gameResult s' = Some Win \<and> score s' = (score s)\<lparr>player := player (score s) + 1\<rparr>
    \<or> gameResult s' = Some Lose \<and> score s' = (score s)\<lparr>computer := computer (score s) + 1\<rparr>
    \<or> gameResult s' = Some Tie \<and> score s' = (score s)\<lparr>ties := ties (score s) + 1\<rparr>)
   \<and> (if resolved_step e \<sigma>
       then gameResult (app (step e \<sigma>)) = Some Win
              \<and> score (app (step e \<sigma>)) = (score (app \<sigma>))\<lparr>player := player (score (app \<sigma>)) + 1\<rparr>
          \<or> gameResult (app (step e \<sigma>)) = Some Lose
              \<and> score (app (step e \<sigma>)) = (score (app \<sigma>))\<lparr>computer := computer (score (app \<sigma>)) + 1\<rparr>
          \<or> gameResult (app (step e \<sigma>)) = Some Tie
              \<and> score (app (step e \<sigma>)) = (score (app \<sigma>))\<lparr>ties := ties (score (app \<sigma>)) + 1\<rparr>
       else score (app (step e \<sigma>)) = score (app \<sigma>))
   \<and> 0 \<le> player (score (app \<sigma>)) \<and> 0 \<le> computer (score (app \<sigma>)) \<and> 0 \<le> ties (score (app \<sigma>))
   \<and> player (score (app \<sigma>)) \<le> player (score (app (run es' \<sigma>)))
   \<and> computer (score (app \<sigma>)) \<le> computer (score (app (run es' \<sigma>)))
   \<and> ties (score (app \<sigma>)) \<le> ties (score (app (run es' \<sigma>)))
   \<and> player (score (app \<sigma>)) + computer (score (app \<sigma>)) + ties (score (app \<sigma>))
       = int (resolved_transitions es initialSession)"
proof -
  from settle_outcome [of r rnd s] obtain result
    where "gameResult s' = Some result" and "score s' = updateScore result (score s)"
    unfolding s'_def by blast
  then have a: "gameResult s' = Some Win \<and> score s' = (score s)\<lparr>player := player (score s) + 1\<rparr>
    \<or> gameResult s' = Some Lose \<and> score s' = (score s)\<lparr>computer := computer (score s) + 1\<rparr>
    \<or> gameResult s' = Some Tie \<and> score s' = (score s)\<lparr>ties := ties (score s) + 1\<rparr>"
    by (rule one_field_raised)
  have b: "if resolved_step e \<sigma>
       then gameResult (app (step e \<sigma>)) = Some Win
              \<and> score (app (step e \<sigma>)) = (score (app \<sigma>))\<lparr>player := player (score (app \<sigma>)) + 1\<rparr>
          \<or> gameResult (app (step e \<sigma>)) = Some Lose
              \<and> score (app (step e \<sigma>)) = (score (app \<sigma>))\<lparr>computer := computer (score (app \<sigma>)) + 1\<rparr>
          \<or> gameResult (app (step e \<sigma>)) = Some Tie
              \<and> score (app (step e \<sigma>)) = (score (app \<sigma>))\<lparr>ties := ties (score (app \<sigma>)) + 1\<rparr>
       else score (app (step e \<sigma>)) = score (app \<sigma>)"
  proof (cases "resolved_step e \<sigma>")
    case True
    from step_resolved [OF True] obtain result
      where "gameResult (app (step e \<sigma>)) = Some result"
        and "score (app (step e \<sigma>)) = updateScore result (score (app \<sigma>))" by blast
    then have "gameResult (app (step e \<sigma>)) = Some Win
              \<and> score (app (step e \<sigma>)) = (score (app \<sigma>))\<lparr>player := player (score (app \<sigma>)) + 1\<rparr>
          \<or> gameResult (app (step e \<sigma>)) = Some Lose
              \<and> score (app (step e \<sigma>)) = (score (app \<sigma>))\<lparr>computer := computer (score (app \<sigma>)) + 1\<rparr>
          \<or> gameResult (app (step e \<sigma>)) = Some Tie
              \<and> score (app (step e \<sigma>)) = (score (app \<sigma>))\<lparr>ties := ties (score (app \<sigma>)) + 1\<rparr>"
      by (rule one_field_raised)
    with True show ?thesis by (simp only: if_True)
  next
    case False
    from step_unresolved [OF False] False show ?thesis by (simp only: if_False)
  qed
  have z: "score (app initialSession) = \<lparr>player = 0, computer = 0, ties = 0\<rparr>"
    by (simp add: initialSession_def initialState_def)
  have c: "0 \<le> player (score (app \<sigma>)) \<and> 0 \<le> computer (score (app \<sigma>)) \<and> 0 \<le> ties (score (app \<sigma>))"
    unfolding \<sigma>_def using run_mono [of initialSession es] by (simp add: z)
  have d: "player (score (app \<sigma>)) + computer (score (app \<sigma>)) + ties (score (app \<sigma>))
       = int (resolved_transitions es initialSession)"
    unfolding \<sigma>_def using run_total [of es initialSession] by (simp add: total_def z)
  have m: "player (score (app \<sigma>)) \<le> player (score (app (run es' \<sigma>)))
   \<and> computer (score (app \<sigma>)) \<le> computer (score (app (run es' \<sigma>)))
   \<and> ties (score (app \<sigma>)) \<le> ties (score (app (run es' \<sigma>)))"
    by (rule run_mono)
  from a b c d m show ?thesis by (intro conjI) (simp_all only:)
qed

text \<open>
  The callback of one render called twice and both predictions settled with paper
  against rock: two Resolved transitions, and the score is 2, 0, 0.
\<close>

theorem C2_score_one_increment_per_round_witness:
  "resolved_transitions (two_calls Timer) initialSession = 2
   \<and> player (score (app (run (two_calls Timer) initialSession)))
       + computer (score (app (run (two_calls Timer) initialSession)))
       + ties (score (app (run (two_calls Timer) initialSession))) = 2
   \<and> score (app (run (two_calls Timer) initialSession)) = \<lparr>player = 2, computer = 0, ties = 0\<rparr>
   \<and> gameResult (playRound_settle (Inr (Some paper)) 0 example_state) = Some Win
   \<and> score (playRound_settle (Inr (Some paper)) 0 example_state) = \<lparr>player = 1, computer = 0, ties = 0\<rparr>"
proof -
  note t = C2_score_one_increment_per_round
      [where r = paper and rnd = 0 and s = example_state and es = "two_calls Timer"
         and e = Render and es' = "[]"]
  have n: "resolved_transitions (two_calls Timer) initialSession = 2"
    by (rule two_calls_resolved)
  from t have "player (score (app (run (two_calls Timer) initialSession)))
       + computer (score (app (run (two_calls Timer) initialSession)))
       + ties (score (app (run (two_calls Timer) initialSession)))
       = int (resolved_transitions (two_calls Timer) initialSession)"
    by (rule conjunct2 [OF conjunct2 [OF conjunct2 [OF conjunct2 [OF conjunct2
          [OF conjunct2 [OF conjunct2 [OF conjunct2]]]]]]])
  then have u: "player (score (app (run (two_calls Timer) initialSession)))
       + computer (score (app (run (two_calls Timer) initialSession)))
       + ties (score (app (run (two_calls Timer) initialSession))) = 2"
    by (simp add: n)
  have w: "gameResult (playRound_settle (Inr (Some paper)) 0 example_state) = Some Win"
    by (simp add: playRound_settle_def paper_def array_get_def CLASSES_def
        determineWinner_rt_def determineWinner_def Let_def)
  from t have "gameResult (playRound_settle (Inr (Some paper)) 0 example_state) = Some Win
        \<and> score (playRound_settle (Inr (Some paper)) 0 example_state)
            = (score example_state)\<lparr>player := player (score example_state) + 1\<rparr>
    \<or> gameResult (playRound_settle (Inr (Some paper)) 0 example_state) = Some Lose
        \<and> score (playRound_settle (Inr (Some paper)) 0 example_state)
            = (score example_state)\<lparr>computer := computer (score example_state) + 1\<rparr>
    \<or> gameResult (playRound_settle (Inr (Some paper)) 0 example_state) = Some Tie
        \<and> score (playRound_settle (Inr (Some paper)) 0 example_state)
            = (score example_state)\<lparr>ties := ties (score example_state) + 1\<rparr>"
    by (rule conjunct1)
  with w have "score (playRound_settle (Inr (Some paper)) 0 example_state)
            = (score example_state)\<lparr>player := player (score example_state) + 1\<rparr>"
    by auto
  then have v: "score (playRound_settle (Inr (Some paper)) 0 example_state)
            = \<lparr>player = 1, computer = 0, ties = 0\<rparr>"
    by (simp add: example_state_def initialState_def)
  show ?thesis using n u v w by (simp add: two_calls_run)
qed

subsection \<open>Aborted rounds\<close>

lemma settle_failed:
  "awaited = Inr None \<or> awaited = Inl e \<Longrightarrow> playRound_settle awaited rnd s = s\<lparr>isPlaying := False\<rparr>"
  by (auto simp: playRound_settle_def)

lemma playRound_failed:
  assumes "isCameraActive c" and "\<not> isPlaying c"
    and "predictGesture env = Inr None \<or> predictGesture env = Inl e"
  shows "playRound c env rnd s = s\<lparr>isPlaying := False, gameResult := None\<rparr>"
proof -
  have "playRound_begin c s = Some (s\<lparr>isPlaying := True, gameResult := None\<rparr>)"
    using assms by (simp add: playRound_begin_def)
  then have "playRound c env rnd s = (s\<lparr>isPlaying := True, gameResult := None\<rparr>)\<lparr>isPlaying := False\<rparr>"
    using settle_failed [OF assms(3)] by (simp add: playRound_def)
  then show ?thesis by simp
qed

text \<open>
  Claim C3. When a round passes the guard (the callback's closure \<open>c\<close> has the camera
  active and no round playing) and its prediction returns no result or raises an error,
  the round ends with the score, the shown prediction and the computer's choice as they
  were, \<^verbatim>\<open>isPlaying\<close> reset to false and no outcome reported; after the next render the
  guard lets a round start again, as long as the camera is still active.
\<close>

theorem C3_failed_round_aborts:
  assumes "isCameraActive c" and "\<not> isPlaying c"
    and "predictGesture env = Inr None \<or> predictGesture env = Inl e"
  shows "score (playRound c env rnd s) = score s
     \<and> \<not> isPlaying (playRound c env rnd s)
     \<and> gameResult (playRound c env rnd s) = None
     \<and> currentPrediction (playRound c env rnd s) = currentPrediction s
     \<and> computerChoice (playRound c env rnd s) = computerChoice s
     \<and> (playRound_begin (playRound c env rnd s) (playRound c env rnd s) \<noteq> None) = isCameraActive s"
  using playRound_failed [OF assms] by (simp add: playRound_begin_def)

text \<open>The hand detector rejects: the round of the example state is aborted.\<close>

theorem C3_failed_round_aborts_witness:
  "isCameraActive example_state \<and> \<not> isPlaying example_state
   \<and> predictGesture (example_env\<lparr>hands := Some (Some HandDetectorFailure)\<rparr>) = Inl HandDetectorFailure
   \<and> score (playRound example_state (example_env\<lparr>hands := Some (Some HandDetectorFailure)\<rparr>) 0 example_state)
       = score example_state
   \<and> \<not> isPlaying (playRound example_state (example_env\<lparr>hands := Some (Some HandDetectorFailure)\<rparr>) 0 example_state)
   \<and> gameResult (playRound example_state (example_env\<lparr>hands := Some (Some HandDetectorFailure)\<rparr>) 0 example_state)
       = None
   \<and> playRound_begin
        (playRound example_state (example_env\<lparr>hands := Some (Some HandDetectorFailure)\<rparr>) 0 example_state)
        (playRound example_state (example_env\<lparr>hands := Some (Some HandDetectorFailure)\<rparr>) 0 example_state)
       \<noteq> None"
proof -
  have a: "isCameraActive example_state" and b: "\<not> isPlaying example_state"
    by (simp_all add: example_state_def initialState_def)
  have c: "predictGesture (example_env\<lparr>hands := Some (Some HandDetectorFailure)\<rparr>) = Inl HandDetectorFailure"
    by (simp add: predictGesture_def example_env_def)
  from C3_failed_round_aborts [OF a b disjI2 [OF c], of 0 example_state] a b c show ?thesis by simp
qed

subsection \<open>The in-flight guard\<close>

lemma fire_playing: "isPlaying c \<Longrightarrow> fire t c s = None"
  by (cases t) (auto simp: autoPlay_tick_def playRound_begin_def)

text \<open>
  What the guard does achieve: once the component has rendered while a round is in
  flight, a trigger changes nothing.
\<close>

lemma trigger_after_render:
  "isPlaying (app \<sigma>) \<Longrightarrow> step (Trigger t) (step Render \<sigma>) = step Render \<sigma>"
  by (simp add: fire_playing begin_round_def)


subsection \<open>Prediction without model, video or canvas\<close>





subsection \<open>The predicted gesture\<close>







subsection \<open>Preprocessing\<close>

lemma unat_byte_le: "unat (b :: byte) \<le> 255"
proof -
  have "unat b < 2 ^ LENGTH(8)" by (rule unsigned_less)
  then show ?thesis by simp
qed

lemma byte_scaled: "0 \<le> real (unat (b :: byte)) / 255 \<and> real (unat b) / 255 \<le> 1"
proof -
  have "real (unat b) \<le> real 255" by (rule of_nat_mono) (rule unat_byte_le)
  then have "real (unat b) \<le> 255" by (simp only: of_nat_numeral)
  moreover have "0 \<le> real (unat b)" by (rule of_nat_0_le_iff)
  ultimately show ?thesis
    by (simp only: zero_le_divide_iff divide_le_eq_1 zero_less_numeral) simp
qed

lemma predict_tensor_rgb:
  assumes "load img 16 16 = Inr buf" and "length buf = 16 * 16 * 3"
  shows "predict_tensor load img =
           Inr \<lparr>tshape = [1, 16, 16, 3], tvalues = map (\<lambda>b. real (unat b) / 255) buf\<rparr>"
  using assms
  by (simp add: predict_tensor_def tensor3d_def div_scalar_def expandDims0_def)

lemma pixel_index_aux: "q < n \<Longrightarrow> r < 3 \<Longrightarrow> 4 * q + r < n * (4 :: nat)"
  by arith

lemma pixel_index: "k < n * 3 \<Longrightarrow> 4 * (k div 3) + k mod 3 < n * (4 :: nat)"
  by (rule pixel_index_aux) (simp_all add: less_mult_imp_div_less)

lemma fromPixels_resized:
  "fromPixels (drawImage_resized sc src w h) =
     \<lparr>tshape = [h, w, 3],
      tvalues = map (\<lambda>k. real (unat (sc src w h (4 * (k div 3) + k mod 3)))) [0 ..< h * w * 3]\<rparr>"
proof -
  have "byte_at (map (sc src w h) [0 ..< w * h * 4]) (4 * (k div 3) + k mod 3)
          = sc src w h (4 * (k div 3) + k mod 3)" if "k < h * w * 3" for k
    using pixel_index [OF that] by (simp add: byte_at_def mult.commute)
  then show ?thesis
    by (simp add: fromPixels_def drawImage_resized_def)
qed

lemma gestureTensor_eq:
  "gestureTensor sc src =
     \<lparr>tshape = [1, 16, 16, 3],
      tvalues = map (\<lambda>k. real (unat (sc src 16 16 (4 * (k div 3) + k mod 3))) / 255) [0 ..< 16 * 16 * 3]\<rparr>"
  unfolding gestureTensor_def Let_def fromPixels_resized
  by (simp add: div_scalar_def expandDims0_def)

lemma resized_data:
  "i < w * h * 4 \<Longrightarrow> img_data (drawImage_resized sc src w h) ! i = sc src w h i"
  by (simp add: drawImage_resized_def)

text \<open>
  Claim C7. For an image whose resized raw buffer has three channels, the preprocessing
  of predict.ts yields a tensor of 16 by 16 by 3 entries (behind the batch dimension 1),
  each the corresponding byte of the buffer divided by 255 and hence between 0 and 1.
  The preprocessing of App.tsx yields, for every image region, a tensor of the same shape
  whose entry for pixel \<open>p\<close> and channel \<open>c\<close> is the byte of that pixel and channel in the
  resized RGBA image data divided by 255, again between 0 and 1. Division is exact here;
  the 32-bit floats of the library round it.
\<close>

theorem C7_preprocessing_normalised:
  assumes "load img 16 16 = Inr buf" and "length buf = 16 * 16 * 3"
  shows "(\<exists>t. predict_tensor load img = Inr t \<and> tshape t = [1, 16, 16, 3]
            \<and> length (tvalues t) = 16 * 16 * 3
            \<and> (\<forall>i < 16 * 16 * 3. tvalues t ! i = real (unat (buf ! i)) / 255
                   \<and> 0 \<le> tvalues t ! i \<and> tvalues t ! i \<le> 1))
     \<and> tshape (gestureTensor sc src) = [1, 16, 16, 3]
     \<and> length (tvalues (gestureTensor sc src)) = 16 * 16 * 3
     \<and> length (img_data (drawImage_resized sc src 16 16)) = 16 * 16 * 4
     \<and> (\<forall>p < 16 * 16. \<forall>c < 3.
           tvalues (gestureTensor sc src) ! (3 * p + c)
             = real (unat (img_data (drawImage_resized sc src 16 16) ! (4 * p + c))) / 255
           \<and> 0 \<le> tvalues (gestureTensor sc src) ! (3 * p + c)
           \<and> tvalues (gestureTensor sc src) ! (3 * p + c) \<le> 1)"
proof -
  let ?t = "\<lparr>tshape = [1, 16, 16, 3], tvalues = map (\<lambda>b. real (unat b) / 255) buf\<rparr>"
  have "\<forall>i < 16 * 16 * 3. tvalues ?t ! i = real (unat (buf ! i)) / 255
                   \<and> 0 \<le> tvalues ?t ! i \<and> tvalues ?t ! i \<le> 1"
    using assms(2) byte_scaled by simp
  then have node: "\<exists>t. predict_tensor load img = Inr t \<and> tshape t = [1, 16, 16, 3]
            \<and> length (tvalues t) = 16 * 16 * 3
            \<and> (\<forall>i < 16 * 16 * 3. tvalues t ! i = real (unat (buf ! i)) / 255
                   \<and> 0 \<le> tvalues t ! i \<and> tvalues t ! i \<le> 1)"
    using predict_tensor_rgb [of load img buf, OF assms] assms(2) by (intro exI [of _ ?t]) simp
  have shape: "tshape (gestureTensor sc src) = [1, 16, 16, 3]"
    and len: "length (tvalues (gestureTensor sc src)) = 16 * 16 * 3"
    by (simp_all add: gestureTensor_eq)
  have data: "length (img_data (drawImage_resized sc src 16 16)) = 16 * 16 * 4"
    by (simp add: drawImage_resized_def)
  have entry: "tvalues (gestureTensor sc src) ! (3 * p + c)
             = real (unat (img_data (drawImage_resized sc src 16 16) ! (4 * p + c))) / 255
           \<and> 0 \<le> tvalues (gestureTensor sc src) ! (3 * p + c)
           \<and> tvalues (gestureTensor sc src) ! (3 * p + c) \<le> 1"
    if "p < 16 * 16" and "c < 3" for p c
  proof -
    from that have k: "3 * p + c < 16 * 16 * 3" and i: "4 * p + c < 16 * 16 * 4" by arith+
    from that(2) have dm: "(3 * p + c) div 3 = p" "(3 * p + c) mod 3 = c" by simp_all
    have "tvalues (gestureTensor sc src) ! (3 * p + c) = real (unat (sc src 16 16 (4 * p + c))) / 255"
      unfolding gestureTensor_eq using k that(2) by (simp add: dm del: upt_Suc)
    moreover have "img_data (drawImage_resized sc src 16 16) ! (4 * p + c) = sc src 16 16 (4 * p + c)"
      using i by (intro resized_data) simp
    ultimately show ?thesis using byte_scaled [of "sc src 16 16 (4 * p + c)"] by (simp only:)
  qed
  have entries: "\<forall>p < 16 * 16. \<forall>c < 3.
           tvalues (gestureTensor sc src) ! (3 * p + c)
             = real (unat (img_data (drawImage_resized sc src 16 16) ! (4 * p + c))) / 255
           \<and> 0 \<le> tvalues (gestureTensor sc src) ! (3 * p + c)
           \<and> tvalues (gestureTensor sc src) ! (3 * p + c) \<le> 1"
    using entry by (intro allI impI)
  show ?thesis by (intro conjI node shape len data entries)
qed

text \<open>A black RGB image: the tensor has the shape 1, 16, 16, 3 and its entry 5 is 0.\<close>

theorem C7_preprocessing_normalised_witness:
  "example_load () 16 16 = Inr (replicate (16 * 16 * 3) 0)
   \<and> length (replicate (16 * 16 * 3) (0 :: byte)) = 16 * 16 * 3
   \<and> (\<exists>t. predict_tensor example_load () = Inr t \<and> tshape t = [1, 16, 16, 3]
          \<and> tvalues t ! 5 = 0)"
proof -
  have a: "example_load () 16 16 = Inr (replicate (16 * 16 * 3) 0)"
    by (simp add: example_load_def)
  have b: "length (replicate (16 * 16 * 3) (0 :: byte)) = 16 * 16 * 3" by simp
  from C7_preprocessing_normalised [of example_load "()" "replicate (16 * 16 * 3) 0", OF a b, THEN conjunct1]
  obtain t where t: "predict_tensor example_load () = Inr t" "tshape t = [1, 16, 16, 3]"
    "\<forall>i < 16 * 16 * 3. tvalues t ! i = real (unat (replicate (16 * 16 * 3) (0 :: byte) ! i)) / 255
                   \<and> 0 \<le> tvalues t ! i \<and> tvalues t ! i \<le> 1"
    by (elim exE conjE) (rule that)
  have "(5 :: nat) < 16 * 16 * 3" by simp
  with t(3) have "tvalues t ! 5 = real (unat (replicate (16 * 16 * 3) (0 :: byte) ! 5)) / 255"
    by blast
  then have "tvalues t ! 5 = 0" by simp
  with t(1,2) have "\<exists>t. predict_tensor example_load () = Inr t \<and> tshape t = [1, 16, 16, 3]
          \<and> tvalues t ! 5 = 0"
    by (intro exI [of _ t] conjI)
  with a b show ?thesis by (intro conjI)
qed

subsection \<open>Degenerate regions\<close>

lemma getImageData_degenerate:
  "js_trunc sw = 0 \<or> js_trunc sh = 0 \<Longrightarrow> getImageData pixels sx sy sw sh = Inl IndexSizeError"
  by (auto simp: getImageData_def Let_def)

lemma getImageData_nonempty:
  "js_trunc sw \<noteq> 0 \<Longrightarrow> js_trunc sh \<noteq> 0 \<Longrightarrow>
   getImageData pixels sx sy sw sh =
     Inr \<lparr>img_width = nat \<bar>js_trunc sw\<bar>, img_height = nat \<bar>js_trunc sh\<bar>,
          img_data = pixels (js_trunc sx) (js_trunc sy) (js_trunc sw) (js_trunc sh)\<rparr>"
  by (simp add: getImageData_def Let_def)

lemma predictGesture_region_error:
  assumes "model env = Some clf" and "videoRef env = Some video" and "canvasRef env = Some canvas"
    and "has_context2d canvas" and "extractRegion env video = Inl err"
  shows "\<exists>e. predictGesture env = Inl e"
  using assms by (auto simp: predictGesture_def split: option.splits)

text \<open>
  Claim C5, as amended. When the region to crop (the scaled bounding box of the hand, or
  the centre region) has a width or a height of zero whole pixels, extracting it fails
  with an error and no tensor is built: the classifier is not reached. The error leaves
  \<^verbatim>\<open>predictGesture\<close> as an exception; no other region is tried. A round that passed the
  guard (by the closure \<open>c\<close> of its callback) is aborted by \<^verbatim>\<open>playRound\<close> with the score
  unchanged, \<^verbatim>\<open>isPlaying\<close> false and no outcome reported.
\<close>

theorem C5_degenerate_region_aborts_round:
  assumes "model env = Some clf" and "videoRef env = Some video" and "canvasRef env = Some canvas"
    and "has_context2d canvas"
    and "cropRegion env (videoWidth video) (videoHeight video) = (sx, sy, sw, sh)"
    and "js_trunc sw = 0 \<or> js_trunc sh = 0"
    and "isCameraActive c" and "\<not> isPlaying c"
  shows "getImageData (frame video) sx sy sw sh = Inl IndexSizeError
     \<and> extractRegion env video = Inl IndexSizeError
     \<and> (\<exists>e. predictGesture env = Inl e)
     \<and> score (playRound c env rnd s) = score s
     \<and> \<not> isPlaying (playRound c env rnd s)
     \<and> gameResult (playRound c env rnd s) = None"
proof -
  have g: "getImageData (frame video) sx sy sw sh = Inl IndexSizeError"
    using assms(6) by (rule getImageData_degenerate)
  then have x: "extractRegion env video = Inl IndexSizeError"
    using assms(5) by (simp add: extractRegion_def)
  from predictGesture_region_error [OF assms(1-4) x] obtain e where e: "predictGesture env = Inl e" ..
  have "playRound c env rnd s = s\<lparr>isPlaying := False, gameResult := None\<rparr>"
    using assms(7,8) e by (intro playRound_failed [of c env e]) simp_all
  then show ?thesis using g x e by simp
qed

lemma pick_example: "pickGesture [1 / 10, 7 / 10, 1 / 5] = \<lparr>gesture = Some Paper, confidence = Some (7 / 10)\<rparr>"
  by (simp add: pickGesture_def argmax_index_def array_get_def CLASSES_def Let_def)

lemma center_example: "centerRegion 320 240 = (88, 48, 144, 144)"
  by (simp add: centerRegion_def Let_def)

lemma extract_example:
  "extractRegion example_env example_video =
     Inr \<lparr>img_width = 144, img_height = 144, img_data = frame example_video 88 48 144 144\<rparr>"
  by (simp add: extractRegion_def cropRegion_def example_env_def center_example getImageData_def
      js_trunc_def Let_def example_video_def)

lemma degenerate_crop:
  "cropRegion degenerate_env (videoWidth example_video) (videoHeight example_video) = (160, 120, 0, 60)"
  by (simp add: cropRegion_def degenerate_env_def example_env_def handRegion_def example_video_def)

text \<open>
  Claim C5 as stated fails in its second half: for a detected hand whose box has no
  width, \<^verbatim>\<open>predictGesture\<close> ends with the error, although the centre region of the same
  frame would have given a prediction.
\<close>

theorem C5_no_fallback_counterexample:
  "handBoundingBox degenerate_env = Some \<lparr>box_x = 1 / 2, box_y = 1 / 2, box_width = 0, box_height = 1 / 4\<rparr>
   \<and> predictGesture degenerate_env = Inl IndexSizeError
   \<and> predictGesture (degenerate_env\<lparr>handDetected := False\<rparr>)
       = Inr (Some \<lparr>gesture = Some Paper, confidence = Some (7 / 10)\<rparr>)"
proof -
  have a: "extractRegion degenerate_env example_video = Inl IndexSizeError"
    using degenerate_crop by (simp add: extractRegion_def getImageData_def js_trunc_def)
  have b: "predictGesture degenerate_env = Inl IndexSizeError"
    using a by (simp add: predictGesture_def degenerate_env_def example_env_def)
  have "extractRegion (degenerate_env\<lparr>handDetected := False\<rparr>) example_video
          = extractRegion example_env example_video"
    by (simp add: extractRegion_def cropRegion_def degenerate_env_def example_env_def)
  then have c: "predictGesture (degenerate_env\<lparr>handDetected := False\<rparr>)
       = Inr (Some \<lparr>gesture = Some Paper, confidence = Some (7 / 10)\<rparr>)"
    using extract_example pick_example
    by (simp add: predictGesture_def degenerate_env_def example_env_def)
  show ?thesis using b c by (simp add: degenerate_env_def)
qed

text \<open>The box without width, in the frame of 320 by 240 pixels.\<close>

theorem C5_degenerate_region_aborts_round_witness:
  "extractRegion degenerate_env example_video = Inl IndexSizeError
   \<and> (\<exists>e. predictGesture degenerate_env = Inl e)
   \<and> score (playRound example_state degenerate_env 0 example_state) = score example_state
   \<and> gameResult (playRound example_state degenerate_env 0 example_state) = None"
proof -
  have m: "model degenerate_env = Some (\<lambda>t. Inr [1 / 10, 7 / 10, 1 / 5])"
    and v: "videoRef degenerate_env = Some example_video"
    and c: "canvasRef degenerate_env = Some \<lparr>has_context2d = True\<rparr>"
    by (simp_all add: degenerate_env_def example_env_def)
  have h: "has_context2d \<lparr>has_context2d = True\<rparr>" by simp
  have z: "js_trunc 0 = 0 \<or> js_trunc 60 = 0" by (simp add: js_trunc_def)
  have a: "isCameraActive example_state" and p: "\<not> isPlaying example_state"
    by (simp_all add: example_state_def initialState_def)
  from C5_degenerate_region_aborts_round [OF m v c h degenerate_crop z a p, of 0 example_state]
  show ?thesis by simp
qed

subsection \<open>The fallback region\<close>

lemma detected_not_read: "predictGesture (env\<lparr>detected := d\<rparr>) = predictGesture env"
proof -
  have "extractRegion (env\<lparr>detected := d\<rparr>) video = extractRegion env video" for video
    by (simp add: extractRegion_def cropRegion_def split: option.split)
  then show ?thesis by (simp add: predictGesture_def split: option.split sum.split)
qed

lemma second_round_hand:
  "handDetected second_round_env
   \<and> handBoundingBox second_round_env
       = Some \<lparr>box_x = 1 / 5, box_y = 1 / 5, box_width = 3 / 5, box_height = 3 / 5\<rparr>
   \<and> hands second_round_env = Some None \<and> detected second_round_env = []
   \<and> model second_round_env = model example_env
   \<and> videoRef second_round_env = Some example_video
   \<and> canvasRef second_round_env = Some \<lparr>has_context2d = True\<rparr>
   \<and> scaler second_round_env = scaler example_env"
  by (simp add: second_round_env_def first_round_env_def rerendered_def example_env_def
      onResults_def handBox_def Let_def)

lemma second_round_crop: "cropRegion second_round_env 320 240 = (64, 48, 192, 144)"
  using second_round_hand by (simp add: cropRegion_def handRegion_def)

lemma second_round_extract:
  "extractRegion second_round_env example_video =
     Inr \<lparr>img_width = 192, img_height = 144, img_data = frame example_video 64 48 192 144\<rparr>"
  using second_round_crop
  by (simp add: extractRegion_def getImageData_def js_trunc_def Let_def example_video_def)

text \<open>
  Claim C8 does not hold of the code. \<^verbatim>\<open>predictGesture\<close> awaits the detector but never
  reads what it reported for the frame of this round: it crops by the \<^verbatim>\<open>handDetected\<close>
  and \<^verbatim>\<open>handBoundingBox\<close> of its closure, which \<^verbatim>\<open>onResults\<close> wrote for an earlier frame.
  In the second of the two example rounds no hand is located (\<^verbatim>\<open>onResults\<close> gets no
  landmarks and reports no hand), the frame of 320 by 240 pixels is captured and the
  round has its prediction, but the region cropped is the box of the hand of the first
  round, 192 by 144 pixels at (64, 48), and not the centre square of 144 pixels at
  (88, 48). In the first round, where the detector did find the hand, it was the centre
  square.
\<close>

theorem C8_stale_hand_box_is_cropped:
  "predictGesture (env\<lparr>detected := d\<rparr>) = predictGesture env
   \<and> hands second_round_env = Some None
   \<and> detected second_round_env = []
   \<and> onResults (detected second_round_env) = (False, None)
   \<and> handDetected second_round_env
   \<and> handBoundingBox second_round_env
       = Some \<lparr>box_x = 1 / 5, box_y = 1 / 5, box_width = 3 / 5, box_height = 3 / 5\<rparr>
   \<and> cropRegion second_round_env (videoWidth example_video) (videoHeight example_video)
       = (64, 48, 192, 144)
   \<and> centerRegion (videoWidth example_video) (videoHeight example_video) = (88, 48, 144, 144)
   \<and> extractRegion second_round_env example_video
       = Inr \<lparr>img_width = 192, img_height = 144, img_data = frame example_video 64 48 192 144\<rparr>
   \<and> predictGesture second_round_env = Inr (Some paper)
   \<and> onResults (detected first_round_env)
       = (True, Some \<lparr>box_x = 1 / 5, box_y = 1 / 5, box_width = 3 / 5, box_height = 3 / 5\<rparr>)
   \<and> extractRegion first_round_env example_video
       = Inr \<lparr>img_width = 144, img_height = 144, img_data = frame example_video 88 48 144 144\<rparr>"
proof -
  have a: "onResults (detected second_round_env) = (False, None)"
    using second_round_hand by (simp add: onResults_def)
  have b: "centerRegion (videoWidth example_video) (videoHeight example_video) = (88, 48, 144, 144)"
    by (simp add: example_video_def center_example)
  have c: "cropRegion second_round_env (videoWidth example_video) (videoHeight example_video)
       = (64, 48, 192, 144)"
    by (simp add: example_video_def second_round_crop)
  have p: "predictGesture second_round_env = Inr (Some paper)"
    using second_round_hand second_round_extract pick_example
    by (simp add: predictGesture_def example_env_def paper_def)
  have f: "onResults (detected first_round_env)
       = (True, Some \<lparr>box_x = 1 / 5, box_y = 1 / 5, box_width = 3 / 5, box_height = 3 / 5\<rparr>)"
    by (simp add: first_round_env_def onResults_def handBox_def Let_def)
  have "extractRegion first_round_env example_video = extractRegion example_env example_video"
    by (simp add: first_round_env_def extractRegion_def cropRegion_def example_env_def)
  then have g: "extractRegion first_round_env example_video
       = Inr \<lparr>img_width = 144, img_height = 144, img_data = frame example_video 88 48 144 144\<rparr>"
    by (simp add: extract_example)
  show ?thesis
    using a b c p f g second_round_hand second_round_extract by (simp add: detected_not_read)
qed

subsection \<open>Training size and inference size\<close>

text \<open>
  Claim C6 does not hold of the code: for the same image, \<^verbatim>\<open>loadImages\<close> of
  src/rps-model/src/train.ts builds a tensor of 64 by 64 by 3 and gives the model the
  input shape 64, 64, 3, while \<^verbatim>\<open>predict\<close> of predict.ts and \<^verbatim>\<open>predictGesture\<close> of App.tsx
  build tensors of 16 by 16 by 3 and create their models with the input shape 16, 16, 3.
\<close>

theorem C6_training_and_inference_sizes_differ:
  "loadImages_tensor example_load () =
     Inr \<lparr>tshape = [64, 64, 3], tvalues = replicate (64 * 64 * 3) 0\<rparr>
   \<and> predict_tensor example_load () =
     Inr \<lparr>tshape = [1, 16, 16, 3], tvalues = replicate (16 * 16 * 3) 0\<rparr>
   \<and> tshape (gestureTensor (scaler example_env) \<lparr>img_width = 144, img_height = 144, img_data = []\<rparr>)
       = [1, 16, 16, 3]
   \<and> train_inputShape = [64, 64, 3] \<and> predict_inputShape = [16, 16, 3]
   \<and> app_inputShape = [16, 16, 3] \<and> train_inputShape \<noteq> predict_inputShape
   \<and> train_inputShape \<noteq> app_inputShape"
  by (simp add: loadImages_tensor_def predict_tensor_def tensor3d_def div_scalar_def
      expandDims0_def example_load_def train_inputShape_def predict_inputShape_def
      app_inputShape_def gestureTensor_def fromPixels_def drawImage_resized_def Let_def)

end
